theory Spec2Isabelle
  imports Complex_Main
begin

section \<open>Numbers of the source language\<close>

text \<open>
  The parser in \<^verbatim>\<open>backend/src/utils/svgParser.ts\<close> computes with JavaScript numbers.
  A number is modelled as one of the special values \<open>NaN\<close>, \<open>-Infinity\<close>, \<open>+Infinity\<close>,
  or a finite value carried as a real. The special values follow the language's rules
  (every comparison with \<open>NaN\<close> is false, \<open>Infinity * 0\<close> is \<open>NaN\<close>, ...), and a finite
  result overflows to an infinity as in binary64: when its magnitude reaches
  \<open>2^1024 - 2^970\<close>, the least real that rounding to nearest takes beyond the largest
  finite number. Below that bound a result stands for itself: rounding to 53 bits,
  underflow and the sign of zero are not represented.
\<close>

datatype number = NaN | NInf | Fin real | PInf

fun isNaN :: "number \<Rightarrow> bool" where
  "isNaN NaN = True"
| "isNaN _ = False"

text \<open>The relational operators \<^verbatim>\<open><\<close> and \<^verbatim>\<open>>\<close>.\<close>

fun lt :: "number \<Rightarrow> number \<Rightarrow> bool" where
  "lt NaN _ = False"
| "lt _ NaN = False"
| "lt _ NInf = False"
| "lt NInf _ = True"
| "lt PInf _ = False"
| "lt (Fin a) PInf = True"
| "lt (Fin a) (Fin b) = (a < b)"

definition gt :: "number \<Rightarrow> number \<Rightarrow> bool" where
  "gt a b = lt b a"

text \<open>The relational operator \<^verbatim>\<open><=\<close>, in which the invariants of the result are stated.\<close>

fun le :: "number \<Rightarrow> number \<Rightarrow> bool" where
  "le NaN _ = False"
| "le _ NaN = False"
| "le NInf _ = True"
| "le _ PInf = True"
| "le PInf _ = False"
| "le (Fin a) NInf = False"
| "le (Fin a) (Fin b) = (a \<le> b)"

text \<open>The number a real result becomes: an infinity from the overflow bound on.\<close>

definition overflowBound :: real where
  "overflowBound =
     179769313486231580793728971405303415079934132710037826936173778980444968292764750946649017977587207096330286416692887910946555547851940402630657488671505820681908902000708383676273854845817711531764475730270069855571366959622842914819860834936475292719074168444365510704342711559699508093042880177904174497792"

definition signedInf :: "bool \<Rightarrow> number" where
  "signedInf negative = (if negative then NInf else PInf)"

definition finiteOrInf :: "real \<Rightarrow> number" where
  "finiteOrInf r =
     (if overflowBound \<le> r then PInf
      else if r \<le> - overflowBound then NInf
      else Fin r)"

text \<open>The arithmetic operators \<^verbatim>\<open>+\<close>, \<^verbatim>\<open>*\<close> and \<^verbatim>\<open>/\<close>.\<close>

fun add :: "number \<Rightarrow> number \<Rightarrow> number" where
  "add NaN _ = NaN"
| "add _ NaN = NaN"
| "add NInf PInf = NaN"
| "add PInf NInf = NaN"
| "add NInf _ = NInf"
| "add _ NInf = NInf"
| "add PInf _ = PInf"
| "add _ PInf = PInf"
| "add (Fin a) (Fin b) = finiteOrInf (a + b)"

fun mul :: "number \<Rightarrow> number \<Rightarrow> number" where
  "mul NaN _ = NaN"
| "mul _ NaN = NaN"
| "mul (Fin a) (Fin b) = finiteOrInf (a * b)"
| "mul (Fin a) NInf = (if a = 0 then NaN else signedInf (0 < a))"
| "mul (Fin a) PInf = (if a = 0 then NaN else signedInf (a < 0))"
| "mul NInf (Fin b) = (if b = 0 then NaN else signedInf (0 < b))"
| "mul PInf (Fin b) = (if b = 0 then NaN else signedInf (b < 0))"
| "mul NInf NInf = PInf"
| "mul NInf PInf = NInf"
| "mul PInf NInf = NInf"
| "mul PInf PInf = PInf"

fun divide_num :: "number \<Rightarrow> number \<Rightarrow> number" where
  "divide_num NaN _ = NaN"
| "divide_num _ NaN = NaN"
| "divide_num (Fin a) (Fin b) =
     (if b = 0 then (if a = 0 then NaN else signedInf (a < 0)) else finiteOrInf (a / b))"
| "divide_num (Fin a) NInf = Fin 0"
| "divide_num (Fin a) PInf = Fin 0"
| "divide_num NInf (Fin b) = signedInf (0 \<le> b)"
| "divide_num PInf (Fin b) = signedInf (b < 0)"
| "divide_num NInf NInf = NaN"
| "divide_num NInf PInf = NaN"
| "divide_num PInf NInf = NaN"
| "divide_num PInf PInf = NaN"

section \<open>The global function parseFloat\<close>

text \<open>
  \<^verbatim>\<open>parseFloat\<close> skips leading white space and reads the longest prefix that is a
  decimal literal: an optional sign, then \<^verbatim>\<open>Infinity\<close> or digits with an optional
  fraction and an optional exponent. With no such prefix the result is \<open>NaN\<close>; a
  literal beyond the overflow bound is an infinity.
  Strings are sequences of 8-bit characters here.
\<close>

definition isDigit :: "char \<Rightarrow> bool" where
  "isDigit c = (c \<in> set ''0123456789'')"

definition digitVal :: "char \<Rightarrow> nat" where
  "digitVal c = of_char c - 48"

definition digitsVal :: "string \<Rightarrow> nat" where
  "digitsVal ds = foldl (\<lambda>n c. 10 * n + digitVal c) 0 ds"

definition isWhiteSpace :: "char \<Rightarrow> bool" where
  "isWhiteSpace c = ((of_char c :: nat) \<in> {9, 10, 11, 12, 13, 32, 160})"

definition readSign :: "string \<Rightarrow> bool \<times> string" where
  "readSign s =
     (case s of
        [] \<Rightarrow> (False, s)
      | c # r \<Rightarrow> if c = CHR ''-'' then (True, r)
                 else if c = CHR ''+'' then (False, r)
                 else (False, s))"

definition readExponent :: "string \<Rightarrow> int" where
  "readExponent s =
     (case s of
        [] \<Rightarrow> 0
      | c # r \<Rightarrow>
          if c = CHR ''e'' \<or> c = CHR ''E'' then
            (let (negative, r') = readSign r;
                 ds = takeWhile isDigit r'
             in if ds = [] then 0
                else if negative then - int (digitsVal ds) else int (digitsVal ds))
          else 0)"

definition scale10 :: "real \<Rightarrow> int \<Rightarrow> real" where
  "scale10 m e = (if e < 0 then m / 10 ^ nat (- e) else m * 10 ^ nat e)"

definition parseFloat :: "string \<Rightarrow> number" where
  "parseFloat s =
     (let (negative, u) = readSign (dropWhile isWhiteSpace s)
      in if take 8 u = ''Infinity'' then signedInf negative
         else
           let ip = takeWhile isDigit u;
               r1 = dropWhile isDigit u;
               (fp, r2) = (case r1 of
                             [] \<Rightarrow> ([], r1)
                           | c # r \<Rightarrow> if c = CHR ''.''
                                      then (takeWhile isDigit r, dropWhile isDigit r)
                                      else ([], r1))
           in if ip = [] \<and> fp = [] then NaN
              else
                let m = real (digitsVal (ip @ fp)) / 10 ^ length fp;
                    v = scale10 m (readExponent r2)
                in finiteOrInf (if negative then - v else v))"

section \<open>The tree handed over by the XML parser\<close>

text \<open>
  The tree builder returns objects. An object has an optional attribute map under the
  key \<^verbatim>\<open>$\<close> and child collections keyed by tag name; a child collection is a single
  value or an array of values; a value is absent, a text, or a reference to an object.
  Objects live in a store and are named by their address, so that two references may
  name the same object and a chain of references may lead back to its start.
\<close>

type_synonym addr = nat

datatype jsval = Undefined | Str string | Ref addr

datatype slot = Single jsval | Many "jsval list"

record node =
  attrs :: "(string \<rightharpoonup> string) option"
  child :: "string \<rightharpoonup> slot"

type_synonym heap = "addr \<Rightarrow> node"

datatype error = TypeError

text \<open>Truthiness: \<^verbatim>\<open>undefined\<close> and the empty string are falsy, every object is truthy.\<close>

fun truthy :: "jsval \<Rightarrow> bool" where
  "truthy Undefined = False"
| "truthy (Str s) = (s \<noteq> [])"
| "truthy (Ref a) = True"

text \<open>
  \<^verbatim>\<open>if (element[type]) { elements = Array.isArray(element[type]) ? element[type] : [element[type]] ... }\<close>:
  \<open>None\<close> when the guard fails, otherwise the array (an array is truthy even when empty).
\<close>

fun elementsOf :: "slot option \<Rightarrow> jsval list option" where
  "elementsOf None = None"
| "elementsOf (Some (Single v)) = (if truthy v then Some [v] else None)"
| "elementsOf (Some (Many vs)) = Some vs"

text \<open>\<^verbatim>\<open>attr || dflt\<close> on an attribute: absent and empty text give the default.\<close>

fun orDefault :: "string option \<Rightarrow> string \<Rightarrow> string" where
  "orDefault None d = d"
| "orDefault (Some s) d = (if s = [] then d else s)"

section \<open>Dimension resolution (lines 34 to 70 of parseSvg)\<close>

text \<open>\<^verbatim>\<open>attr.toString().replace(/[^\d.]/g, '')\<close>\<close>

definition stripNonNumeric :: "string \<Rightarrow> string" where
  "stripNonNumeric s = filter (\<lambda>c. isDigit c \<or> c = CHR ''.'') s"

text \<open>\<^verbatim>\<open>viewBoxStr.split(/[\s,]+/)\<close>: the pieces between maximal runs of separators.\<close>

definition isSeparator :: "char \<Rightarrow> bool" where
  "isSeparator c = (isWhiteSpace c \<or> c = CHR '','')"

fun splitSep :: "bool \<Rightarrow> string \<Rightarrow> string \<Rightarrow> string list" where
  "splitSep inSep cur [] = [rev cur]"
| "splitSep inSep cur (c # cs) =
     (if isSeparator c
      then (if inSep then splitSep True [] cs else rev cur # splitSep True [] cs)
      else splitSep False (c # cur) cs)"

definition parseViewBox :: "string \<Rightarrow> number list" where
  "parseViewBox viewBoxStr =
     filter (\<lambda>n. \<not> isNaN n) (map parseFloat (splitSep False [] viewBoxStr))"

text \<open>\<^verbatim>\<open>svgWidth === 0 || isNaN(svgWidth)\<close>\<close>

definition unresolved :: "number \<Rightarrow> bool" where
  "unresolved n = (n = Fin 0 \<or> isNaN n)"

text \<open>\<^verbatim>\<open>const svgElement = result.svg || result\<close>, then \<^verbatim>\<open>svgElement?.$\<close>.\<close>

definition svgElementAttrs :: "heap \<Rightarrow> addr \<Rightarrow> (string \<rightharpoonup> string) option" where
  "svgElementAttrs h result =
     (case child (h result) ''svg'' of
        None \<Rightarrow> attrs (h result)
      | Some (Many vs) \<Rightarrow> None
      | Some (Single Undefined) \<Rightarrow> attrs (h result)
      | Some (Single (Str s)) \<Rightarrow> (if s = [] then attrs (h result) else None)
      | Some (Single (Ref a)) \<Rightarrow> attrs (h a))"

text \<open>Lines 34 to 64: the attributes first, then the viewBox for what is still 0 or NaN.\<close>

definition attributeDimension :: "string option \<Rightarrow> number" where
  "attributeDimension a =
     (case a of
        None \<Rightarrow> Fin 0
      | Some s \<Rightarrow> if s = [] then Fin 0 else parseFloat (stripNonNumeric s))"

definition declaredDimensions :: "(string \<rightharpoonup> string) option \<Rightarrow> number \<times> number" where
  "declaredDimensions as =
     (case as of
        None \<Rightarrow> (Fin 0, Fin 0)
      | Some m \<Rightarrow>
          (let svgWidth = attributeDimension (m ''width'');
               svgHeight = attributeDimension (m ''height'')
           in case m ''viewBox'' of
                None \<Rightarrow> (svgWidth, svgHeight)
              | Some vb \<Rightarrow>
                  if vb = [] then (svgWidth, svgHeight)
                  else
                    (let viewBox = parseViewBox vb
                     in if length viewBox = 4
                        then (if unresolved svgWidth then viewBox ! 2 else svgWidth,
                              if unresolved svgHeight then viewBox ! 3 else svgHeight)
                        else (svgWidth, svgHeight))))"

text \<open>Lines 66 to 70: the default applies only when both dimensions are still 0 or NaN.\<close>

definition resolveDimensions :: "(string \<rightharpoonup> string) option \<Rightarrow> number \<times> number" where
  "resolveDimensions as =
     (let (svgWidth, svgHeight) = declaredDimensions as
      in if unresolved svgWidth \<and> unresolved svgHeight
         then (Fin 100, Fin 100)
         else (svgWidth, svgHeight))"

section \<open>The element walker and the rectangle extractor (lines 74 to 150)\<close>

text \<open>Lines 113 to 117, against the size of the document.\<close>

definition isOutOfBounds ::
  "number \<Rightarrow> number \<Rightarrow> number \<Rightarrow> number \<Rightarrow> number \<Rightarrow> number \<Rightarrow> bool" where
  "isOutOfBounds svgWidth svgHeight x y width height =
     (lt x (Fin 0) \<or> lt y (Fin 0) \<or> gt (add x width) svgWidth \<or> gt (add y height) svgHeight)"

datatype DesignIssue = EMPTY | OUT_OF_BOUNDS

record IDesignItem =
  x :: number
  y :: number
  width :: number
  height :: number
  fill :: string
  issue :: "DesignIssue option"

text \<open>The accumulators shared by all calls of the walker.\<close>

record walk_state =
  visited :: "addr set"
  totalElementsCount :: nat
  items :: "IDesignItem list"

definition MAX_RECURSION_DEPTH :: nat where
  "MAX_RECURSION_DEPTH = 100"

definition elementTypes :: "string list" where
  "elementTypes = [''rect'', ''path'', ''circle'', ''ellipse'', ''polygon'', ''polyline'',
                   ''line'', ''text'', ''use'', ''image'']"

text \<open>Lines 95 to 100: every counted tag adds the number of its entries.\<close>

definition countType :: "node \<Rightarrow> nat \<Rightarrow> string \<Rightarrow> nat" where
  "countType element n type =
     (case elementsOf (child element type) of
        None \<Rightarrow> n
      | Some elements \<Rightarrow> n + length elements)"

definition countElements :: "node \<Rightarrow> nat \<Rightarrow> nat" where
  "countElements element n = foldl (countType element) n elementTypes"

text \<open>\<^verbatim>\<open>rect.$\<close>: reading a property of \<^verbatim>\<open>undefined\<close> raises; a text has no such property.\<close>

fun attrsOf :: "heap \<Rightarrow> jsval \<Rightarrow> error + (string \<rightharpoonup> string) option" where
  "attrsOf h Undefined = Inl TypeError"
| "attrsOf h (Str s) = Inr None"
| "attrsOf h (Ref a) = Inr (attrs (h a))"

text \<open>Lines 105 to 131, the body of \<^verbatim>\<open>rects.forEach\<close>, up to the push.\<close>

definition extractRect :: "heap \<Rightarrow> number \<Rightarrow> number \<Rightarrow> jsval \<Rightarrow> error + IDesignItem" where
  "extractRect h svgWidth svgHeight rect =
     (case attrsOf h rect of
        Inl e \<Rightarrow> Inl e
      | Inr None \<Rightarrow> Inl TypeError
      | Inr (Some m) \<Rightarrow>
          (let x = parseFloat (orDefault (m ''x'') ''0'');
               y = parseFloat (orDefault (m ''y'') ''0'');
               width = parseFloat (orDefault (m ''width'') ''0'');
               height = parseFloat (orDefault (m ''height'') ''0'');
               fill = orDefault (m ''fill'') ''#000000''
           in Inr \<lparr> x = x, y = y, width = width, height = height, fill = fill,
                     issue = (if isOutOfBounds svgWidth svgHeight x y width height
                              then Some OUT_OF_BOUNDS else None) \<rparr>))"

fun extractRects ::
  "heap \<Rightarrow> number \<Rightarrow> number \<Rightarrow> jsval list \<Rightarrow> IDesignItem list \<Rightarrow> error + IDesignItem list" where
  "extractRects h svgWidth svgHeight [] its = Inr its"
| "extractRects h svgWidth svgHeight (rect # rects) its =
     (case extractRect h svgWidth svgHeight rect of
        Inl e \<Rightarrow> Inl e
      | Inr item \<Rightarrow> extractRects h svgWidth svgHeight rects (its @ [item]))"

text \<open>Lines 91 to 133: mark the object, count its primitives, extract its rectangles.\<close>

definition visitElement ::
  "heap \<Rightarrow> number \<Rightarrow> number \<Rightarrow> addr \<Rightarrow> walk_state \<Rightarrow> error + walk_state" where
  "visitElement h svgWidth svgHeight a st =
     (let element = h a;
          st1 = st\<lparr> visited := insert a (visited st),
                    totalElementsCount := countElements element (totalElementsCount st) \<rparr>
      in case elementsOf (child element ''rect'') of
           None \<Rightarrow> Inr st1
         | Some rects \<Rightarrow>
             (case extractRects h svgWidth svgHeight rects (items st1) of
                Inl e \<Rightarrow> Inl e
              | Inr its \<Rightarrow> Inr (st1\<lparr> items := its \<rparr>)))"

text \<open>The arrays walked by the two \<^verbatim>\<open>forEach\<close> loops of lines 136 to 149.\<close>

definition childrenOf :: "node \<Rightarrow> string \<Rightarrow> jsval list" where
  "childrenOf element tag = (case elementsOf (child element tag) of None \<Rightarrow> [] | Some vs \<Rightarrow> vs)"

text \<open>
  The size of a call of the walker: the depth still allowed below it, and for a loop
  over children the number of children left.
\<close>

definition walkMeasure ::
  "(heap \<times> number \<times> number \<times> jsval \<times> nat \<times> walk_state) +
   (heap \<times> number \<times> number \<times> jsval list \<times> nat \<times> walk_state) \<Rightarrow> nat \<times> nat" where
  "walkMeasure c =
     (case c of
        Inl (h, w, hh, element, depth, st) \<Rightarrow> (2 * (MAX_RECURSION_DEPTH + 1 - depth), 0)
      | Inr (h, w, hh, elements, depth, st) \<Rightarrow>
          (2 * (MAX_RECURSION_DEPTH + 1 - depth) + 1, length elements))"

text \<open>
  \<^verbatim>\<open>extractAllElements(element, depth)\<close>. A non-empty text passes the falsy test and then
  \<^verbatim>\<open>visited.add\<close> raises, because a WeakSet holds objects only. \<open>walkEach\<close> is
  \<^verbatim>\<open>forEach((child) => extractAllElements(child, depth))\<close>; an error ends the whole walk.
\<close>

function extractAllElements ::
    "heap \<Rightarrow> number \<Rightarrow> number \<Rightarrow> jsval \<Rightarrow> nat \<Rightarrow> walk_state \<Rightarrow> error + walk_state"
  and walkEach ::
    "heap \<Rightarrow> number \<Rightarrow> number \<Rightarrow> jsval list \<Rightarrow> nat \<Rightarrow> walk_state \<Rightarrow> error + walk_state"
where
  "extractAllElements h svgWidth svgHeight element depth st =
     (if \<not> truthy element \<or> depth > MAX_RECURSION_DEPTH then Inr st
      else
        case element of
          Undefined \<Rightarrow> Inr st
        | Str s \<Rightarrow> Inl TypeError
        | Ref a \<Rightarrow>
            if a \<in> visited st then Inr st
            else
              case visitElement h svgWidth svgHeight a st of
                Inl e \<Rightarrow> Inl e
              | Inr st1 \<Rightarrow>
                  (case walkEach h svgWidth svgHeight (childrenOf (h a) ''g'') (depth + 1) st1 of
                     Inl e \<Rightarrow> Inl e
                   | Inr st2 \<Rightarrow>
                       if depth > 0
                       then walkEach h svgWidth svgHeight (childrenOf (h a) ''svg'') (depth + 1) st2
                       else Inr st2))"
| "walkEach h svgWidth svgHeight [] depth st = Inr st"
| "walkEach h svgWidth svgHeight (element # elements) depth st =
     (case extractAllElements h svgWidth svgHeight element depth st of
        Inl e \<Rightarrow> Inl e
      | Inr st1 \<Rightarrow> walkEach h svgWidth svgHeight elements depth st1)"
  by pat_completeness auto
termination
  by (relation "inv_image (less_than <*lex*> less_than) walkMeasure")
     (auto simp: walkMeasure_def)

declare extractAllElements.simps [simp del]

section \<open>Issues, coverage and the result (lines 152 to 192)\<close>

record ParsedSVGResult =
  svgWidth :: number
  svgHeight :: number
  resultItems :: "IDesignItem list"
  itemsCount :: nat
  coverageRatio :: number
  issues :: "DesignIssue list"

definition totalRectArea :: "IDesignItem list \<Rightarrow> number" where
  "totalRectArea its = foldl (\<lambda>sum item. add sum (mul (width item) (height item))) (Fin 0) its"

definition coverage :: "number \<Rightarrow> number \<Rightarrow> IDesignItem list \<Rightarrow> number" where
  "coverage w hh its =
     (let svgArea = mul w hh
      in if gt svgArea (Fin 0) then divide_num (totalRectArea its) svgArea else Fin 0)"

definition detectIssues :: "nat \<Rightarrow> IDesignItem list \<Rightarrow> DesignIssue list" where
  "detectIssues n its =
     (if n = 0 then [EMPTY] else []) @
     (if list_ex (\<lambda>item. issue item = Some OUT_OF_BOUNDS) its then [OUT_OF_BOUNDS] else [])"

definition initialState :: walk_state where
  "initialState = \<lparr> visited = {}, totalElementsCount = 0, items = [] \<rparr>"

text \<open>
  The callback of \<^verbatim>\<open>parseString\<close> on a tree \<open>result\<close> in the store \<open>h\<close>: \<open>Inr\<close> is the
  value the promise resolves to, \<open>Inl\<close> the error it is rejected with.
\<close>

definition parseSvg :: "heap \<Rightarrow> addr \<Rightarrow> error + ParsedSVGResult" where
  "parseSvg h result =
     (let (w, hh) = resolveDimensions (svgElementAttrs h result)
      in case extractAllElements h w hh (Ref result) 0 initialState of
           Inl e \<Rightarrow> Inl e
         | Inr st \<Rightarrow>
             Inr \<lparr> svgWidth = w, svgHeight = hh, resultItems = items st,
                   itemsCount = totalElementsCount st,
                   coverageRatio = coverage w hh (items st),
                   issues = detectIssues (totalElementsCount st) (items st) \<rparr>)"

section \<open>Vocabulary of the stated properties\<close>

text \<open>A number that is finite and not below zero.\<close>

definition nonNegative :: "number \<Rightarrow> bool" where
  "nonNegative n = (case n of Fin r \<Rightarrow> 0 \<le> r | _ \<Rightarrow> False)"

text \<open>
  An item carries the issue exactly when it leaves the canvas of size \<open>w\<close> by \<open>hh\<close>
  on some side.
\<close>

definition classified :: "number \<Rightarrow> number \<Rightarrow> IDesignItem \<Rightarrow> bool" where
  "classified w hh it =
     (issue it = (if lt (x it) (Fin 0) \<or> lt (y it) (Fin 0) \<or>
                     gt (add (x it) (width it)) w \<or> gt (add (y it) (height it)) hh
                  then Some OUT_OF_BOUNDS else None))"

text \<open>
  The number a rectangle attribute stands for: 0 when the attribute is absent or empty,
  otherwise whatever \<open>parseFloat\<close> makes of its text, \<open>NaN\<close> included.
\<close>

definition rectNumber :: "string option \<Rightarrow> number" where
  "rectNumber a = (case a of None \<Rightarrow> Fin 0 | Some s \<Rightarrow> if s = [] then Fin 0 else parseFloat s)"

section \<open>Example documents\<close>

text \<open>
  A store is written as the list of its objects, the object at position \<open>a\<close> having
  address \<open>a\<close>. An element without attributes has no attribute map, as the XML parser
  leaves the key \<^verbatim>\<open>$\<close> out; an empty element is the empty text.
\<close>

definition emptyNode :: node where
  "emptyNode = \<lparr> attrs = None, child = Map.empty \<rparr>"

definition elementNode :: "(string \<times> string) list \<Rightarrow> (string \<times> slot) list \<Rightarrow> node" where
  "elementNode as cs =
     \<lparr> attrs = (if as = [] then None else Some (map_of as)), child = map_of cs \<rparr>"

definition storeOf :: "node list \<Rightarrow> heap" where
  "storeOf ns a = (if a < length ns then ns ! a else emptyNode)"

text \<open>\<^verbatim>\<open><svg width="200"/>\<close>\<close>

definition docWidthOnly :: heap where
  "docWidthOnly = storeOf
     [elementNode [] [(''svg'', Single (Ref 1))],
      elementNode [(''width'', ''200'')] []]"

text \<open>\<^verbatim>\<open><g><rect><title>t</title></rect></g>\<close>\<close>

definition docRectWithoutAttributes :: heap where
  "docRectWithoutAttributes = storeOf
     [elementNode [] [(''g'', Single (Ref 1))],
      elementNode [] [(''rect'', Many [Ref 2])],
      elementNode [] [(''title'', Many [Str ''t''])]]"

text \<open>\<^verbatim>\<open><g><rect x="abc" width="10" height="10"/></g>\<close>\<close>

definition docUnparsableX :: heap where
  "docUnparsableX = storeOf
     [elementNode [] [(''g'', Single (Ref 1))],
      elementNode [] [(''rect'', Many [Ref 2])],
      elementNode [(''x'', ''abc''), (''width'', ''10''), (''height'', ''10'')] []]"

text \<open>\<^verbatim>\<open><svg width="abc" viewBox="0 0 50 60"/>\<close>\<close>

definition docUnparsableWidthViewBox :: heap where
  "docUnparsableWidthViewBox = storeOf
     [elementNode [] [(''svg'', Single (Ref 1))],
      elementNode [(''width'', ''abc''), (''viewBox'', ''0 0 50 60'')] []]"

text \<open>\<^verbatim>\<open><g><rect width="-5" height="5"/></g>\<close>\<close>

definition docNegativeWidth :: heap where
  "docNegativeWidth = storeOf
     [elementNode [] [(''g'', Single (Ref 1))],
      elementNode [] [(''rect'', Many [Ref 2])],
      elementNode [(''width'', ''-5''), (''height'', ''5'')] []]"

text \<open>
  \<^verbatim>\<open><g><g><svg width="10" height="10"><circle/>\<close>
  \<^verbatim>\<open><rect x="20" y="20" width="5" height="5"/>\<close>
  \<^verbatim>\<open><rect x="98" y="0" width="5" height="5" fill="#f00"/></svg></g></g>\<close>
\<close>

definition docNested :: heap where
  "docNested = storeOf
     [elementNode [] [(''g'', Single (Ref 1))],
      elementNode [] [(''g'', Many [Ref 2])],
      elementNode [] [(''svg'', Many [Ref 3])],
      elementNode [(''width'', ''10''), (''height'', ''10'')]
        [(''circle'', Many [Str '''']), (''rect'', Many [Ref 4, Ref 5])],
      elementNode [(''x'', ''20''), (''y'', ''20''), (''width'', ''5''), (''height'', ''5'')] [],
      elementNode [(''x'', ''98''), (''y'', ''0''), (''width'', ''5''), (''height'', ''5''),
                   (''fill'', ''#f00'')] []]"

text \<open>\<^verbatim>\<open><g><rect x="0" y="0" width="100" height="100"/></g>\<close>\<close>

definition docFullCanvas :: heap where
  "docFullCanvas = storeOf
     [elementNode [] [(''g'', Single (Ref 1))],
      elementNode [] [(''rect'', Many [Ref 2])],
      elementNode [(''x'', ''0''), (''y'', ''0''), (''width'', ''100''), (''height'', ''100'')] []]"

text \<open>
  A root object that carries a viewBox of \<open>1e160\<close> by \<open>1e160\<close> itself and holds a group
  with one rectangle of that size: the canvas area and the rectangle area both overflow.
\<close>

definition docAreaOverflow :: heap where
  "docAreaOverflow = storeOf
     [elementNode [(''viewBox'', ''0 0 1e160 1e160'')] [(''g'', Single (Ref 1))],
      elementNode [] [(''rect'', Many [Ref 2])],
      elementNode [(''width'', ''1e160''), (''height'', ''1e160'')] []]"

text \<open>
  Two objects that list each other (and the second itself) as groups: no XML text
  produces this store, it is a structure with cyclic references.
\<close>

definition docCycle :: heap where
  "docCycle = storeOf
     [elementNode [] [(''g'', Many [Ref 1]), (''circle'', Many [Str ''''])],
      elementNode [] [(''g'', Many [Ref 0, Ref 1]), (''path'', Many [Str ''''])]]"

text \<open>An endless chain of groups, each holding one path and the next group.\<close>

definition docChain :: heap where
  "docChain a = elementNode [] [(''g'', Many [Ref (a + 1)]), (''path'', Many [Str ''''])]"

section \<open>Unfolding the walker\<close>

lemma extractAllElements_stop:
  "\<not> truthy e \<or> depth > MAX_RECURSION_DEPTH \<Longrightarrow> extractAllElements h w hh e depth st = Inr st"
  by (simp add: extractAllElements.simps)

lemma extractAllElements_text:
  "s \<noteq> [] \<Longrightarrow> depth \<le> MAX_RECURSION_DEPTH \<Longrightarrow> extractAllElements h w hh (Str s) depth st = Inl TypeError"
  by (simp add: extractAllElements.simps)

lemma extractAllElements_visited:
  "a \<in> visited st \<Longrightarrow> extractAllElements h w hh (Ref a) depth st = Inr st"
  by (simp add: extractAllElements.simps)

lemma extractAllElements_fresh:
  "depth \<le> MAX_RECURSION_DEPTH \<Longrightarrow> a \<notin> visited st \<Longrightarrow>
   extractAllElements h w hh (Ref a) depth st =
     (case visitElement h w hh a st of
        Inl e \<Rightarrow> Inl e
      | Inr st1 \<Rightarrow>
          (case walkEach h w hh (childrenOf (h a) ''g'') (depth + 1) st1 of
             Inl e \<Rightarrow> Inl e
           | Inr st2 \<Rightarrow>
               if depth > 0
               then walkEach h w hh (childrenOf (h a) ''svg'') (depth + 1) st2
               else Inr st2))"
  by (simp add: extractAllElements.simps)

lemma walk_preserves:
  "\<forall>a s s'. I s \<longrightarrow> visitElement h w hh a s = Inr s' \<longrightarrow> I s' \<Longrightarrow>
     extractAllElements h w hh e d st = Inr st' \<Longrightarrow> I st \<Longrightarrow> I st'"
  "\<forall>a s s'. I s \<longrightarrow> visitElement h w hh a s = Inr s' \<longrightarrow> I s' \<Longrightarrow>
     walkEach h w hh es d st = Inr st' \<Longrightarrow> I st \<Longrightarrow> I st'"
proof (induction h w hh e d st and h w hh es d st arbitrary: st' and st'
       rule: extractAllElements_walkEach.induct)
  case (1 h w hh element depth st)
  note step = "1.prems"(1) and run = "1.prems"(2) and inv = "1.prems"(3)
  show ?case
  proof (cases "\<not> truthy element \<or> depth > MAX_RECURSION_DEPTH")
    case True
    with run inv show ?thesis by (simp add: extractAllElements_stop)
  next
    case False
    with run obtain a where el: "element = Ref a"
      by (cases element) (auto simp: extractAllElements_text)
    from False have dle: "depth \<le> MAX_RECURSION_DEPTH" by simp
    show ?thesis
    proof (cases "a \<in> visited st")
      case True
      with el run inv show ?thesis by (simp add: extractAllElements_visited)
    next
      case nv: False
      from run obtain st1 st2 where
        v: "visitElement h w hh a st = Inr st1" and
        g: "walkEach h w hh (childrenOf (h a) ''g'') (depth + 1) st1 = Inr st2" and
        s: "(if depth > 0 then walkEach h w hh (childrenOf (h a) ''svg'') (depth + 1) st2
             else Inr st2) = Inr st'"
        unfolding el extractAllElements_fresh[OF dle nv] by (auto split: sum.splits)
      from step inv v have i1: "I st1" by blast
      have i2: "I st2" using "1.IH"(1)[OF False el nv v step g i1] .
      show ?thesis
      proof (cases "depth > 0")
        case True
        with s have "walkEach h w hh (childrenOf (h a) ''svg'') (depth + 1) st2 = Inr st'"
          by simp
        from "1.IH"(2)[OF False el nv v g True step this i2] show ?thesis .
      next
        case False
        with s i2 show ?thesis by simp
      qed
    qed
  qed
next
  case (2 h w hh depth st)
  then show ?case by simp
next
  case (3 h w hh element elements depth st)
  from "3.prems"(2) obtain st1 where
    a: "extractAllElements h w hh element depth st = Inr st1" and
    b: "walkEach h w hh elements depth st1 = Inr st'"
    by (auto split: sum.splits)
  from "3.IH"(2)[OF a "3.prems"(1) b "3.IH"(1)[OF "3.prems"(1) a "3.prems"(3)]] show ?case .
qed


lemma foldl_countType_mono: "n \<le> foldl (countType element) n ts"
proof (induction ts arbitrary: n)
  case Nil
  show ?case by simp
next
  case (Cons t ts)
  have "n \<le> countType element n t" by (simp add: countType_def split: option.splits)
  also have "\<dots> \<le> foldl (countType element) (countType element n t) ts" by (rule Cons.IH)
  finally show ?case by simp
qed

lemma countElements_rect:
  "countType element n ''rect'' \<le> countElements element n"
proof -
  have "countElements element n = foldl (countType element) n elementTypes"
    by (simp add: countElements_def)
  also have "\<dots> = foldl (countType element) (countType element n ''rect'') (tl elementTypes)"
    by (simp add: elementTypes_def)
  finally show ?thesis by (simp add: foldl_countType_mono)
qed

lemma extractRects_length:
  "extractRects h w hh rects its = Inr its' \<Longrightarrow> length its' = length its + length rects"
  by (induction rects arbitrary: its) (auto split: sum.splits)

lemma visitElement_count:
  assumes "visitElement h w hh a st = Inr st'"
    and "length (items st) \<le> totalElementsCount st"
  shows "length (items st') \<le> totalElementsCount st'"
proof (cases "elementsOf (child (h a) ''rect'')")
  case None
  have "totalElementsCount st \<le> countElements (h a) (totalElementsCount st)"
    unfolding countElements_def by (rule foldl_countType_mono)
  with assms None show ?thesis by (auto simp: visitElement_def Let_def)
next
  case (Some rects)
  with assms(1) obtain its where
    e: "extractRects h w hh rects (items st) = Inr its" and
    s: "st' = st\<lparr> visited := insert a (visited st),
                   totalElementsCount := countElements (h a) (totalElementsCount st),
                   items := its \<rparr>"
    by (auto simp: visitElement_def Let_def split: sum.splits)
  have "length its = length (items st) + length rects" using extractRects_length[OF e] .
  moreover have "totalElementsCount st + length rects \<le> countElements (h a) (totalElementsCount st)"
    using countElements_rect[of "h a" "totalElementsCount st"] Some by (simp add: countType_def)
  ultimately show ?thesis using assms(2) s by simp
qed

lemma parseSvg_count:
  assumes "parseSvg h result = Inr r"
  shows "length (resultItems r) \<le> itemsCount r"
proof -
  obtain w hh where d: "resolveDimensions (svgElementAttrs h result) = (w, hh)" by fastforce
  with assms obtain st where
    run: "extractAllElements h w hh (Ref result) 0 initialState = Inr st" and
    r: "r = \<lparr> svgWidth = w, svgHeight = hh, resultItems = items st,
                   itemsCount = totalElementsCount st,
                   coverageRatio = coverage w hh (items st),
                   issues = detectIssues (totalElementsCount st) (items st) \<rparr>"
    by (auto simp: parseSvg_def split: sum.splits)
  have "length (items st) \<le> totalElementsCount st"
    by (rule walk_preserves(1)[where I = "\<lambda>s. length (items s) \<le> totalElementsCount s", OF _ run])
       (auto simp: initialState_def intro: visitElement_count)
  with r show ?thesis by simp
qed

lemma parseSvg_Inr:
  assumes "parseSvg h result = Inr r"
  shows "\<exists>st. extractAllElements h (svgWidth r) (svgHeight r) (Ref result) 0 initialState = Inr st \<and>
              resolveDimensions (svgElementAttrs h result) = (svgWidth r, svgHeight r) \<and>
              resultItems r = items st \<and>
              itemsCount r = totalElementsCount st \<and>
              coverageRatio r = coverage (svgWidth r) (svgHeight r) (items st) \<and>
              issues r = detectIssues (totalElementsCount st) (items st)"
proof -
  obtain w hh where d: "resolveDimensions (svgElementAttrs h result) = (w, hh)" by fastforce
  with assms obtain st where
    "extractAllElements h w hh (Ref result) 0 initialState = Inr st" and
    "r = \<lparr> svgWidth = w, svgHeight = hh, resultItems = items st,
           itemsCount = totalElementsCount st,
           coverageRatio = coverage w hh (items st),
           issues = detectIssues (totalElementsCount st) (items st) \<rparr>"
    by (auto simp: parseSvg_def split: sum.splits)
  with d show ?thesis by simp
qed

lemma extractRect_classified:
  "extractRect h w hh rect = Inr it \<Longrightarrow> classified w hh it"
  by (auto simp: extractRect_def classified_def isOutOfBounds_def Let_def
           split: sum.splits option.splits)

lemma extractRects_classified:
  "extractRects h w hh rects its = Inr its' \<Longrightarrow> \<forall>it\<in>set its. classified w hh it \<Longrightarrow>
   \<forall>it\<in>set its'. classified w hh it"
proof (induction rects arbitrary: its)
  case Nil
  then show ?case by simp
next
  case (Cons rect rects)
  from Cons.prems(1) obtain item where
    a: "extractRect h w hh rect = Inr item" and
    b: "extractRects h w hh rects (its @ [item]) = Inr its'"
    by (auto split: sum.splits)
  from a Cons.prems(2) have "\<forall>it\<in>set (its @ [item]). classified w hh it"
    by (auto dest: extractRect_classified)
  from Cons.IH[OF b this] show ?case .
qed

lemma visitElement_classified:
  assumes "visitElement h w hh a st = Inr st'"
    and "\<forall>it\<in>set (items st). classified w hh it"
  shows "\<forall>it\<in>set (items st'). classified w hh it"
proof (cases "elementsOf (child (h a) ''rect'')")
  case None
  with assms show ?thesis by (auto simp: visitElement_def Let_def)
next
  case (Some rects)
  with assms(1) obtain its where
    e: "extractRects h w hh rects (items st) = Inr its" and s: "items st' = its"
    by (auto simp: visitElement_def Let_def split: sum.splits)
  from extractRects_classified[OF e assms(2)] s show ?thesis by simp
qed

lemma parseSvg_classified:
  assumes "parseSvg h result = Inr r"
  shows "\<forall>it\<in>set (resultItems r). classified (svgWidth r) (svgHeight r) it"
proof -
  from parseSvg_Inr[OF assms] obtain st where
    run: "extractAllElements h (svgWidth r) (svgHeight r) (Ref result) 0 initialState = Inr st"
    and its: "resultItems r = items st"
    by blast
  have "\<forall>it\<in>set (items st). classified (svgWidth r) (svgHeight r) it"
    by (rule walk_preserves(1)[where I = "\<lambda>s. \<forall>it\<in>set (items s). classified (svgWidth r) (svgHeight r) it",
          OF _ run])
       (auto simp: initialState_def dest: visitElement_classified)
  with its show ?thesis by simp
qed

lemma overflowBound_power: "overflowBound = 2 ^ 1024 - 2 ^ 970"
  by (simp add: overflowBound_def)

lemma overflowBound_pos: "0 < overflowBound"
  by (simp add: overflowBound_def)

lemma finiteOrInf_zero: "finiteOrInf 0 = Fin 0"
  using overflowBound_pos by (simp add: finiteOrInf_def)

lemma finiteOrInf_nonNegative:
  "0 \<le> r \<Longrightarrow> finiteOrInf r = PInf \<or> nonNegative (finiteOrInf r)"
  using overflowBound_pos by (auto simp: finiteOrInf_def nonNegative_def)

lemma mul_nonNegative:
  assumes "nonNegative a" and "nonNegative b"
  shows "mul a b = PInf \<or> nonNegative (mul a b)"
proof -
  from assms obtain p q where "a = Fin p" "0 \<le> p" "b = Fin q" "0 \<le> q"
    by (auto simp: nonNegative_def split: number.splits)
  then show ?thesis using finiteOrInf_nonNegative[of "p * q"] by simp
qed

lemma add_nonNegative:
  assumes "a = PInf \<or> nonNegative a" and "b = PInf \<or> nonNegative b"
  shows "add a b = PInf \<or> nonNegative (add a b)"
proof (cases "a = PInf \<or> b = PInf")
  case True
  with assms show ?thesis by (auto simp: nonNegative_def split: number.splits)
next
  case False
  with assms obtain p q where "a = Fin p" "0 \<le> p" "b = Fin q" "0 \<le> q"
    by (auto simp: nonNegative_def split: number.splits)
  then show ?thesis using finiteOrInf_nonNegative[of "p + q"] by simp
qed

lemma totalRectArea_nonNegative:
  assumes "\<forall>it\<in>set its. nonNegative (width it) \<and> nonNegative (height it)"
  shows "totalRectArea its = PInf \<or> nonNegative (totalRectArea its)"
proof -
  have "acc = PInf \<or> nonNegative acc \<Longrightarrow>
        \<forall>it\<in>set its. nonNegative (width it) \<and> nonNegative (height it) \<Longrightarrow>
        foldl (\<lambda>sum item. add sum (mul (width item) (height item))) acc its = PInf \<or>
        nonNegative (foldl (\<lambda>sum item. add sum (mul (width item) (height item))) acc its)"
    for acc
  proof (induction its arbitrary: acc)
    case Nil
    then show ?case by simp
  next
    case (Cons it its)
    from Cons.prems(2) have "mul (width it) (height it) = PInf \<or>
                             nonNegative (mul (width it) (height it))"
      by (simp add: mul_nonNegative)
    with Cons.prems(1) have "add acc (mul (width it) (height it)) = PInf \<or>
                             nonNegative (add acc (mul (width it) (height it)))"
      by (rule add_nonNegative)
    from Cons.IH[OF this] Cons.prems(2) show ?case by simp
  qed
  from this[of "Fin 0"] assms show ?thesis by (simp add: totalRectArea_def nonNegative_def)
qed

lemma le_zero_not_negative: "le (Fin 0) c \<Longrightarrow> \<not> lt c (Fin 0)"
  by (cases c) simp_all

lemma coverage_sign:
  assumes "\<forall>it\<in>set its. nonNegative (width it) \<and> nonNegative (height it)"
  shows "if totalRectArea its = PInf \<and> mul w hh = PInf
         then coverage w hh its = NaN
         else le (Fin 0) (coverage w hh its)"
proof -
  from totalRectArea_nonNegative[OF assms]
  consider "totalRectArea its = PInf" | t where "totalRectArea its = Fin t" "0 \<le> t"
    by (auto simp: nonNegative_def split: number.splits)
  then show ?thesis
  proof cases
    case 1
    then show ?thesis
      by (cases "mul w hh") (simp_all add: coverage_def gt_def signedInf_def)
  next
    case 2
    show ?thesis
    proof (cases "mul w hh")
      case (Fin a)
      show ?thesis
      proof (cases "0 < a")
        case True
        with 2 have "0 \<le> t / a" by simp
        from finiteOrInf_nonNegative[OF this] have "le (Fin 0) (finiteOrInf (t / a))"
          by (auto simp: nonNegative_def split: number.splits)
        with 2 Fin True show ?thesis by (simp add: coverage_def gt_def)
      next
        case False
        with 2 Fin show ?thesis by (simp add: coverage_def gt_def)
      qed
    qed (use 2 in \<open>simp_all add: coverage_def gt_def\<close>)
  qed
qed

lemma parseFloat_zero: "parseFloat ''0'' = Fin 0"
  by (simp add: parseFloat_def readSign_def readExponent_def scale10_def isDigit_def
      digitVal_def digitsVal_def isWhiteSpace_def finiteOrInf_zero)

lemmas walk_wf_rule =
  "extractAllElements_walkEach.termination"
    [where R = "inv_image (less_than <*lex*> less_than) walkMeasure"]

lemma dom_all: "extractAllElements_walkEach_dom c"
proof -
  have "All extractAllElements_walkEach_dom"
    by (rule walk_wf_rule) (auto simp: walkMeasure_def)
  then show ?thesis ..
qed

section \<open>The example documents, evaluated\<close>

lemma docWidthOnly_parse:
  "parseSvg docWidthOnly 0 =
     Inr \<lparr> svgWidth = Fin 200, svgHeight = Fin 0, resultItems = [], itemsCount = 0,
           coverageRatio = Fin 0, issues = [EMPTY] \<rparr>"
  by code_simp

lemma docNested_parse:
  "parseSvg docNested 0 =
     Inr \<lparr> svgWidth = Fin 100, svgHeight = Fin 100,
           resultItems =
             [\<lparr> x = Fin 20, y = Fin 20, width = Fin 5, height = Fin 5,
                 fill = ''#000000'', issue = None \<rparr>,
              \<lparr> x = Fin 98, y = Fin 0, width = Fin 5, height = Fin 5,
                 fill = ''#f00'', issue = Some OUT_OF_BOUNDS \<rparr>],
           itemsCount = 3, coverageRatio = Fin (1 / 200), issues = [OUT_OF_BOUNDS] \<rparr>"
  by code_simp

lemma docFullCanvas_parse:
  "parseSvg docFullCanvas 0 =
     Inr \<lparr> svgWidth = Fin 100, svgHeight = Fin 100,
           resultItems =
             [\<lparr> x = Fin 0, y = Fin 0, width = Fin 100, height = Fin 100,
                 fill = ''#000000'', issue = None \<rparr>],
           itemsCount = 1, coverageRatio = Fin 1, issues = [] \<rparr>"
  by code_simp

lemma docNegativeWidth_parse:
  "parseSvg docNegativeWidth 0 =
     Inr \<lparr> svgWidth = Fin 100, svgHeight = Fin 100,
           resultItems =
             [\<lparr> x = Fin 0, y = Fin 0, width = Fin (- 5), height = Fin 5,
                 fill = ''#000000'', issue = None \<rparr>],
           itemsCount = 1, coverageRatio = Fin (- 1 / 400), issues = [] \<rparr>"
  by code_simp

lemma docUnparsableX_parse:
  "parseSvg docUnparsableX 0 =
     Inr \<lparr> svgWidth = Fin 100, svgHeight = Fin 100,
           resultItems =
             [\<lparr> x = NaN, y = Fin 0, width = Fin 10, height = Fin 10,
                 fill = ''#000000'', issue = None \<rparr>],
           itemsCount = 1, coverageRatio = Fin (1 / 100), issues = [] \<rparr>"
  by code_simp

lemma docUnparsableWidthViewBox_parse:
  "parseSvg docUnparsableWidthViewBox 0 =
     Inr \<lparr> svgWidth = Fin 50, svgHeight = Fin 60, resultItems = [], itemsCount = 0,
           coverageRatio = Fin 0, issues = [EMPTY] \<rparr>"
  by code_simp

lemma docAreaOverflow_parse:
  "parseSvg docAreaOverflow 0 =
     Inr \<lparr> svgWidth = Fin (10 ^ 160), svgHeight = Fin (10 ^ 160),
           resultItems =
             [\<lparr> x = Fin 0, y = Fin 0, width = Fin (10 ^ 160), height = Fin (10 ^ 160),
                 fill = ''#000000'', issue = None \<rparr>],
           itemsCount = 1, coverageRatio = NaN, issues = [] \<rparr>"
  by code_simp

section \<open>Claim C1: the canvas after dimension resolution\<close>

text \<open>
  Claim C1 says that the returned canvas always has \<open>width > 0\<close> and \<open>height > 0\<close>,
  also when exactly one of the two resolves. The default of lines 67 to 70 is applied
  only when both dimensions are still 0 or NaN, so a document that declares its width
  alone keeps the height 0.
\<close>

theorem canvas_height_zero_counterexample:
  "\<not> isl (parseSvg docWidthOnly 0) \<and>
   svgWidth (projr (parseSvg docWidthOnly 0)) = Fin 200 \<and>
   svgHeight (projr (parseSvg docWidthOnly 0)) = Fin 0 \<and>
   \<not> gt (svgHeight (projr (parseSvg docWidthOnly 0))) (Fin 0)"
  by (simp add: docWidthOnly_parse gt_def)

text \<open>
  Claim C1, as the code has it: when neither dimension resolves from the attributes or
  the viewBox, both become 100 and are positive; otherwise both are returned as they
  resolved, an unresolved one staying 0 or NaN; and the two returned dimensions are never
  both 0 or NaN.
\<close>

theorem canvas_dimensions_resolved:
  assumes "parseSvg h result = Inr r"
    and "declaredDimensions (svgElementAttrs h result) = (w0, h0)"
  shows "(unresolved w0 \<and> unresolved h0 \<longrightarrow>
            svgWidth r = Fin 100 \<and> svgHeight r = Fin 100 \<and>
            gt (svgWidth r) (Fin 0) \<and> gt (svgHeight r) (Fin 0)) \<and>
         (\<not> (unresolved w0 \<and> unresolved h0) \<longrightarrow> svgWidth r = w0 \<and> svgHeight r = h0) \<and>
         \<not> (unresolved (svgWidth r) \<and> unresolved (svgHeight r))"
proof -
  from parseSvg_Inr[OF assms(1)]
  have "resolveDimensions (svgElementAttrs h result) = (svgWidth r, svgHeight r)" by blast
  with assms(2) have
    "(svgWidth r, svgHeight r) =
       (if unresolved w0 \<and> unresolved h0 then (Fin 100, Fin 100) else (w0, h0))"
    by (simp add: resolveDimensions_def)
  then show ?thesis
    by (cases "unresolved w0 \<and> unresolved h0") (auto simp: gt_def unresolved_def)
qed

theorem canvas_dimensions_resolved_witness:
  "svgWidth (projr (parseSvg docNested 0)) = Fin 100 \<and>
   svgHeight (projr (parseSvg docNested 0)) = Fin 100 \<and>
   svgWidth (projr (parseSvg docWidthOnly 0)) = Fin 200 \<and>
   svgHeight (projr (parseSvg docWidthOnly 0)) = Fin 0 \<and>
   unresolved (svgHeight (projr (parseSvg docWidthOnly 0))) \<and>
   \<not> unresolved (svgWidth (projr (parseSvg docWidthOnly 0)))"
proof -
  have a: "declaredDimensions (svgElementAttrs docNested 0) = (Fin 0, Fin 0)"
    by code_simp
  have b: "declaredDimensions (svgElementAttrs docWidthOnly 0) = (Fin 200, Fin 0)"
    by code_simp
  from canvas_dimensions_resolved[OF docNested_parse a]
       canvas_dimensions_resolved[OF docWidthOnly_parse b]
  show ?thesis by (simp add: unresolved_def docNested_parse docWidthOnly_parse)
qed

section \<open>Claim C2: a rect node without an attribute map\<close>

text \<open>
  Claim C2 says that extraction never raises, also for a rect node that has no attribute
  map. Lines 106 to 110 read \<^verbatim>\<open>rect.$.x\<close> unguarded, where line 42 guards the same key
  of the root with \<^verbatim>\<open>svgElement?.$\<close>: on a rect element without attributes the read
  raises a TypeError and the whole parse is rejected.
\<close>

theorem rect_without_attributes_raises:
  "parseSvg docRectWithoutAttributes 0 = Inl TypeError \<and>
   extractRect docRectWithoutAttributes (Fin 100) (Fin 100) (Ref 2) = Inl TypeError"
  by code_simp

section \<open>Claim C3: the numbers of a rectangle\<close>

text \<open>
  Claim C3 says that an unparsable \<open>x\<close>, \<open>y\<close>, \<open>width\<close> or \<open>height\<close> is stored as 0 and
  never as NaN. The default \<^verbatim>\<open>'0'\<close> of lines 106 to 109 replaces an absent or empty
  text only; \<^verbatim>\<open>x="abc"\<close> is handed to \<open>parseFloat\<close> and stored as NaN.
\<close>

theorem rect_unparsable_x_counterexample:
  "\<not> isl (parseSvg docUnparsableX 0) \<and>
   map x (resultItems (projr (parseSvg docUnparsableX 0))) = [NaN]"
  by (simp add: docUnparsableX_parse)

text \<open>
  Claim C3, as the code has it: for every rect node with an attribute map the extractor
  returns an item whose \<open>x\<close>, \<open>y\<close>, \<open>width\<close> and \<open>height\<close> are 0 when the attribute is
  absent or empty and otherwise the result of \<open>parseFloat\<close> on its text, which is NaN for
  a text without a numeric prefix.
\<close>

theorem rect_numbers:
  assumes "attrsOf h rect = Inr (Some m)"
  shows "\<exists>it. extractRect h w hh rect = Inr it \<and>
              x it = rectNumber (m ''x'') \<and> y it = rectNumber (m ''y'') \<and>
              width it = rectNumber (m ''width'') \<and> height it = rectNumber (m ''height'')"
proof -
  have n: "parseFloat (orDefault a ''0'') = rectNumber a" for a
    by (cases a) (simp_all add: rectNumber_def parseFloat_zero)
  from assms show ?thesis by (simp add: extractRect_def Let_def n)
qed

theorem rect_numbers_witness:
  "x (projr (extractRect docUnparsableX (Fin 100) (Fin 100) (Ref 2))) = NaN \<and>
   y (projr (extractRect docUnparsableX (Fin 100) (Fin 100) (Ref 2))) = Fin 0 \<and>
   width (projr (extractRect docUnparsableX (Fin 100) (Fin 100) (Ref 2))) = Fin 10"
proof -
  have a: "attrsOf docUnparsableX (Ref 2) =
           Inr (Some (map_of [(''x'', ''abc''), (''width'', ''10''), (''height'', ''10'')]))"
    by (simp add: docUnparsableX_def storeOf_def elementNode_def)
  have "rectNumber (Some ''abc'') = NaN" "rectNumber None = Fin 0"
       "rectNumber (Some ''10'') = Fin 10"
    by code_simp+
  with rect_numbers[OF a, of "Fin 100" "Fin 100"] show ?thesis by auto
qed

section \<open>Claim C4: an unparsable dimension and the viewBox\<close>

text \<open>
  Claim C4 says that a width or height attribute whose parsed value is NaN is kept in
  preference to a well-formed viewBox. Lines 60 and 61 test
  \<^verbatim>\<open>svgWidth === 0 || isNaN(svgWidth)\<close>, so the NaN is replaced.
\<close>

theorem viewBox_replaces_NaN_counterexample:
  "\<not> isl (parseSvg docUnparsableWidthViewBox 0) \<and>
   attributeDimension (Some ''abc'') = NaN \<and>
   svgWidth (projr (parseSvg docUnparsableWidthViewBox 0)) = Fin 50"
proof -
  have "attributeDimension (Some ''abc'') = NaN" by code_simp
  then show ?thesis by (simp add: docUnparsableWidthViewBox_parse)
qed

text \<open>
  Claim C4, as the code has it: when the viewBox yields exactly four numbers, a width
  whose parsed value is NaN is replaced by the third of them and a height whose parsed
  value is NaN by the fourth.
\<close>

theorem viewBox_replaces_NaN:
  assumes "m ''viewBox'' = Some vb" and "parseViewBox vb = [a, b, c, d]"
  shows "(isNaN (attributeDimension (m ''width'')) \<longrightarrow> fst (declaredDimensions (Some m)) = c) \<and>
         (isNaN (attributeDimension (m ''height'')) \<longrightarrow> snd (declaredDimensions (Some m)) = d)"
proof -
  have "parseViewBox [] = []" by code_simp
  with assms(2) have "vb \<noteq> []" by auto
  with assms show ?thesis
    by (simp add: declaredDimensions_def Let_def unresolved_def)
qed

theorem viewBox_replaces_NaN_witness:
  "isNaN (attributeDimension (Some ''abc'')) \<and>
   fst (declaredDimensions
          (Some (map_of [(''width'', ''abc''), (''viewBox'', ''0 0 50 60'')]))) = Fin 50"
proof -
  let ?m = "map_of [(''width'', ''abc''), (''viewBox'', ''0 0 50 60'')]"
  have v: "?m ''viewBox'' = Some ''0 0 50 60''" by simp
  have p: "parseViewBox ''0 0 50 60'' = [Fin 0, Fin 0, Fin 50, Fin 60]" by code_simp
  have n: "isNaN (attributeDimension (Some ''abc''))" by code_simp
  have w: "?m ''width'' = Some ''abc''" by simp
  from viewBox_replaces_NaN[of ?m "''0 0 50 60''" "Fin 0" "Fin 0" "Fin 50" "Fin 60", OF v p] n w
  show ?thesis by simp
qed

section \<open>Claim C5: the sign of the coverage ratio\<close>

text \<open>
  Claim C5 says that \<open>0 <= coverageRatio\<close> for all rectangle attributes, negative widths
  and heights included. Line 172 adds \<open>width * height\<close> as it is, so one rectangle with
  a negative width and a positive height makes the ratio negative.
\<close>

theorem coverage_negative_counterexample:
  "\<not> isl (parseSvg docNegativeWidth 0) \<and>
   coverageRatio (projr (parseSvg docNegativeWidth 0)) = Fin (- 1 / 400) \<and>
   \<not> le (Fin 0) (coverageRatio (projr (parseSvg docNegativeWidth 0)))"
  by (simp add: docNegativeWidth_parse)

text \<open>
  Claim C5, as the code has it: when every extracted rectangle has a finite width and a
  finite height that are not negative, the coverage ratio is never negative, and
  \<open>0 <= coverageRatio\<close> holds except when the summed rectangle area and the canvas area
  both overflow to Infinity, where the ratio is NaN.
\<close>

theorem coverage_nonnegative_unless_overflow:
  assumes "parseSvg h result = Inr r"
    and "\<forall>it\<in>set (resultItems r). nonNegative (width it) \<and> nonNegative (height it)"
  shows "\<not> lt (coverageRatio r) (Fin 0) \<and>
         (if totalRectArea (resultItems r) = PInf \<and> mul (svgWidth r) (svgHeight r) = PInf
          then coverageRatio r = NaN
          else le (Fin 0) (coverageRatio r))"
proof -
  from parseSvg_Inr[OF assms(1)] obtain st :: walk_state where
    "resultItems r = items st" "coverageRatio r = coverage (svgWidth r) (svgHeight r) (items st)"
    by blast
  with assms(2) coverage_sign[of "items st" "svgWidth r" "svgHeight r"]
  have s: "if totalRectArea (resultItems r) = PInf \<and> mul (svgWidth r) (svgHeight r) = PInf
           then coverageRatio r = NaN
           else le (Fin 0) (coverageRatio r)"
    by simp
  then have "\<not> lt (coverageRatio r) (Fin 0)"
    by (auto dest: le_zero_not_negative split: if_splits)
  with s show ?thesis by simp
qed

theorem coverage_nonnegative_unless_overflow_witness:
  "coverageRatio (projr (parseSvg docNested 0)) = Fin (1 / 200) \<and>
   le (Fin 0) (coverageRatio (projr (parseSvg docNested 0))) \<and>
   totalRectArea (resultItems (projr (parseSvg docAreaOverflow 0))) = PInf \<and>
   mul (svgWidth (projr (parseSvg docAreaOverflow 0)))
       (svgHeight (projr (parseSvg docAreaOverflow 0))) = PInf \<and>
   coverageRatio (projr (parseSvg docAreaOverflow 0)) = NaN"
proof -
  have a: "totalRectArea (resultItems (projr (parseSvg docNested 0))) = Fin 50"
    unfolding docNested_parse by code_simp
  have b: "totalRectArea (resultItems (projr (parseSvg docAreaOverflow 0))) = PInf"
    unfolding docAreaOverflow_parse by code_simp
  have c: "mul (svgWidth (projr (parseSvg docAreaOverflow 0)))
               (svgHeight (projr (parseSvg docAreaOverflow 0))) = PInf"
    unfolding docAreaOverflow_parse by code_simp
  from coverage_nonnegative_unless_overflow[OF docNested_parse]
       coverage_nonnegative_unless_overflow[OF docAreaOverflow_parse] a b c
  show ?thesis by (simp add: docNested_parse docAreaOverflow_parse nonNegative_def)
qed

section \<open>Claim C6: classification against the document-level canvas\<close>

text \<open>
  Claim C6: every extracted rectangle, also one inside nested groups or nested
  sub-documents, carries OUT_OF_BOUNDS exactly when \<open>x < 0\<close> or \<open>y < 0\<close> or
  \<open>x + width > canvas.width\<close> or \<open>y + height > canvas.height\<close>, the canvas being the
  size resolved for the document.
\<close>

theorem out_of_bounds_classification:
  assumes "parseSvg h result = Inr r" and "it \<in> set (resultItems r)"
  shows "(issue it = Some OUT_OF_BOUNDS) =
         (lt (x it) (Fin 0) \<or> lt (y it) (Fin 0) \<or>
          gt (add (x it) (width it)) (svgWidth r) \<or> gt (add (y it) (height it)) (svgHeight r))"
  using parseSvg_classified[OF assms(1)] assms(2) by (auto simp: classified_def split: if_splits)

theorem out_of_bounds_classification_witness:
  "issue (resultItems (projr (parseSvg docNested 0)) ! 0) = None \<and>
   issue (resultItems (projr (parseSvg docNested 0)) ! 1) = Some OUT_OF_BOUNDS \<and>
   gt (add (x (resultItems (projr (parseSvg docNested 0)) ! 1))
           (width (resultItems (projr (parseSvg docNested 0)) ! 1)))
      (svgWidth (projr (parseSvg docNested 0)))"
  using out_of_bounds_classification[OF docNested_parse,
          of "\<lparr> x = Fin 98, y = Fin 0, width = Fin 5, height = Fin 5,
                 fill = ''#f00'', issue = Some OUT_OF_BOUNDS \<rparr>"]
  by (simp add: docNested_parse gt_def finiteOrInf_def overflowBound_def)

section \<open>Claim C7: termination of the traversal\<close>

text \<open>
  Claim C7: the traversal terminates on every input, also on stores with shared or cyclic
  references and on chains deeper than 100 groups. Every call of the walker lies in the
  domain on which its recursion is well-founded; a call past depth 100 returns at once
  and changes nothing; a call on an object already visited returns at once and changes
  nothing.
\<close>

theorem traversal_terminates:
  "extractAllElements_walkEach_dom (Inl (h, w, hh, element, depth, st)) \<and>
   (100 < depth \<longrightarrow> extractAllElements h w hh element depth st = Inr st) \<and>
   (\<forall>a. element = Ref a \<and> a \<in> visited st \<longrightarrow>
        extractAllElements h w hh element depth st = Inr st)"
  by (simp add: dom_all extractAllElements_stop extractAllElements_visited
      MAX_RECURSION_DEPTH_def)

theorem traversal_terminates_witness:
  "extractAllElements_walkEach_dom (Inl (docCycle, Fin 100, Fin 100, Ref 0, 101, initialState)) \<and>
   extractAllElements docCycle (Fin 100) (Fin 100) (Ref 0) 101 initialState = Inr initialState \<and>
   extractAllElements docCycle (Fin 100) (Fin 100) (Ref 0) 7
       (initialState\<lparr> visited := {0} \<rparr>) = Inr (initialState\<lparr> visited := {0} \<rparr>) \<and>
   itemsCount (projr (parseSvg docCycle 0)) = 2 \<and>
   itemsCount (projr (parseSvg docChain 0)) = 101"
proof -
  have c: "itemsCount (projr (parseSvg docCycle 0)) = 2" by code_simp
  have d: "itemsCount (projr (parseSvg docChain 0)) = 101" by code_simp
  from traversal_terminates[of docCycle "Fin 100" "Fin 100" "Ref 0" 101 initialState]
       traversal_terminates[of docCycle "Fin 100" "Fin 100" "Ref 0" 7
         "initialState\<lparr> visited := {0} \<rparr>"]
       c d
  show ?thesis by simp
qed

section \<open>Claim C8: the element count bounds the number of items\<close>

text \<open>
  Claim C8: the returned total element count is at least the number of extracted
  rectangle items.
\<close>

theorem total_count_ge_items:
  assumes "parseSvg h result = Inr r"
  shows "length (resultItems r) \<le> itemsCount r"
  using assms by (rule parseSvg_count)

theorem total_count_ge_items_witness:
  "length (resultItems (projr (parseSvg docNested 0))) = 2 \<and>
   itemsCount (projr (parseSvg docNested 0)) = 3 \<and>
   length (resultItems (projr (parseSvg docNested 0))) \<le> itemsCount (projr (parseSvg docNested 0))"
  using total_count_ge_items[OF docNested_parse] by (simp add: docNested_parse)

section \<open>Claim C9: EMPTY and OUT_OF_BOUNDS exclude each other\<close>

text \<open>
  Claim C9: the issues of a result never contain both EMPTY and OUT_OF_BOUNDS, because
  EMPTY means that nothing was counted and then no rectangle was extracted.
\<close>

theorem empty_excludes_out_of_bounds:
  assumes "parseSvg h result = Inr r"
  shows "\<not> (EMPTY \<in> set (issues r) \<and> OUT_OF_BOUNDS \<in> set (issues r))"
proof -
  from parseSvg_Inr[OF assms] obtain st :: walk_state where
    its: "resultItems r = items st" and n: "itemsCount r = totalElementsCount st" and
    i: "issues r = detectIssues (totalElementsCount st) (items st)"
    by blast
  from parseSvg_count[OF assms] its n have "length (items st) \<le> totalElementsCount st" by simp
  then have "totalElementsCount st = 0 \<Longrightarrow> items st = []" by simp
  with i show ?thesis by (auto simp: detectIssues_def list_ex_iff split: if_splits)
qed

theorem empty_excludes_out_of_bounds_witness:
  "issues (projr (parseSvg docNested 0)) = [OUT_OF_BOUNDS] \<and>
   EMPTY \<notin> set (issues (projr (parseSvg docNested 0)))"
  using empty_excludes_out_of_bounds[OF docNested_parse] by (simp add: docNested_parse)

section \<open>Claim C10: a rectangle that coincides with the canvas\<close>

text \<open>
  Claim C10: a rectangle with \<open>x = 0\<close>, \<open>y = 0\<close>, \<open>x + width = canvas.width\<close> and
  \<open>y + height = canvas.height\<close> is in bounds and carries no issue, the comparisons
  being strict.
\<close>

theorem boundary_rectangle_in_bounds:
  assumes "parseSvg h result = Inr r" and "it \<in> set (resultItems r)"
    and "x it = Fin 0" and "y it = Fin 0"
    and "add (x it) (width it) = svgWidth r" and "add (y it) (height it) = svgHeight r"
  shows "issue it = None"
proof -
  have "\<not> lt n n" for n by (cases n) simp_all
  with parseSvg_classified[OF assms(1)] assms(2-) show ?thesis
    by (simp add: classified_def gt_def)
qed

theorem boundary_rectangle_in_bounds_witness:
  "resultItems (projr (parseSvg docFullCanvas 0)) =
     [\<lparr> x = Fin 0, y = Fin 0, width = Fin 100, height = Fin 100,
         fill = ''#000000'', issue = None \<rparr>] \<and>
   add (Fin 0) (Fin 100) = svgWidth (projr (parseSvg docFullCanvas 0)) \<and>
   issue (hd (resultItems (projr (parseSvg docFullCanvas 0)))) = None"
  using boundary_rectangle_in_bounds[OF docFullCanvas_parse,
          of "\<lparr> x = Fin 0, y = Fin 0, width = Fin 100, height = Fin 100,
                 fill = ''#000000'', issue = None \<rparr>"]
  by (simp add: docFullCanvas_parse finiteOrInf_def overflowBound_def)

end
